theory Spec2Isabelle
  imports Complex_Main "HOL-Library.AList"
begin

section \<open>Application state: \<^verbatim>\<open>src/server/state.js\<close>\<close>

text \<open>
  The class \<^verbatim>\<open>AppState\<close> holds one stream object, a \<^verbatim>\<open>Map\<close> of viewer sessions and the
  listener lists of its event system. Every method becomes a function from the state (and the
  values the method reads from its environment: the clock, \<^verbatim>\<open>crypto.randomUUID()\<close>) to the
  new state.

  The stream object is assigned as a whole in exactly two shapes, \<^verbatim>\<open>{id, status: 'offline'}\<close>
  and \<^verbatim>\<open>{id, status: 'live', publisherIP, resolution, bitrate, startTime}\<close>; the constant
  field \<^verbatim>\<open>id: 'live'\<close> is left out. Timestamps are milliseconds, bitrates are integers
  (\<^verbatim>\<open>NaN\<close> and fractions are outside the model), \<^verbatim>\<open>undefined\<close> is \<open>None\<close>.

  The capacity \<^verbatim>\<open>config.limits.maxViewers\<close> is a number of the configuration file, whole or
  not: \<^verbatim>\<open>validateConfig\<close> in \<^verbatim>\<open>config.js\<close> checks its range only. It is a rational here.
\<close>

record LiveFields =
  publisherIP :: "string option"
  resolution :: string
  bitrate :: int
  startTime :: int

datatype Stream = Offline | Live LiveFields

text \<open>The \<^verbatim>\<open>metadata\<close> argument of \<^verbatim>\<open>startStream\<close> and \<^verbatim>\<open>updateStreamMetadata\<close>: every
  property may be missing.\<close>

record Metadata =
  md_publisherIP :: "string option"
  md_resolution :: "string option"
  md_bitrate :: "int option"

type_synonym WebSocketRef = nat

record ViewerSession =
  session_id :: string
  connectedAt :: int
  lastPing :: int
  quality :: string
  websocket :: WebSocketRef

text \<open>The object \<^verbatim>\<open>getStreamInfo()\<close> returns; \<^verbatim>\<open>streamInfo\<close> is set only when live.\<close>

record StreamDetails =
  si_resolution :: string
  si_bitrate :: int
  si_startTime :: int
  si_duration :: int

record StreamInfo =
  live :: bool
  viewerCount :: nat
  streamInfo :: "StreamDetails option"

text \<open>
  \<^verbatim>\<open>_emit(event, data)\<close> calls every registered listener with \<^verbatim>\<open>data\<close>, catching what a
  listener throws. The model records each emission, in order, in the field \<open>emitted\<close>; what
  the listeners do with it is outside \<^verbatim>\<open>AppState\<close>.
\<close>

datatype event = StreamChange StreamInfo | ViewerChange nat

datatype error = Error string

text \<open>The \<^verbatim>\<open>Map\<close> of viewers is an association list in insertion order; \<^verbatim>\<open>Map.set\<close> is
  \<^const>\<open>AList.update\<close> (replace in place, or append), \<^verbatim>\<open>Map.delete\<close> is \<^const>\<open>AList.delete\<close>,
  \<^verbatim>\<open>Map.get\<close> is \<^const>\<open>map_of\<close> and \<^verbatim>\<open>Map.size\<close> is the length.\<close>

record AppState =
  maxViewers :: rat
  stream :: Stream
  viewers :: "(string \<times> ViewerSession) list"
  emitted :: "event list"


definition newAppState :: "rat \<Rightarrow> AppState" where
  "newAppState configMaxViewers =
     \<lparr>maxViewers = configMaxViewers, stream = Offline, viewers = [], emitted = []\<rparr>"

definition emit :: "event \<Rightarrow> AppState \<Rightarrow> AppState" where
  "emit e s = s\<lparr>emitted := emitted s @ [e]\<rparr>"

text \<open>JavaScript's \<^verbatim>\<open>x || d\<close> on an optional string and on an optional number.\<close>

fun or_string :: "string option \<Rightarrow> string \<Rightarrow> string" where
  "or_string None d = d"
| "or_string (Some x) d = (if x = [] then d else x)"

fun or_number :: "int option \<Rightarrow> int \<Rightarrow> int" where
  "or_number None d = d"
| "or_number (Some n) d = (if n = 0 then d else n)"

definition getViewerCount :: "AppState \<Rightarrow> nat" where
  "getViewerCount s = length (viewers s)"

text \<open>\<open>now\<close> is \<^verbatim>\<open>Date.now()\<close>, read only in the live branch.\<close>

definition getStreamInfo :: "AppState \<Rightarrow> int \<Rightarrow> StreamInfo" where
  "getStreamInfo s now =
     (case stream s of
        Offline \<Rightarrow> \<lparr>live = False, viewerCount = length (viewers s), streamInfo = None\<rparr>
      | Live f \<Rightarrow>
          \<lparr>live = True, viewerCount = length (viewers s),
           streamInfo = Some \<lparr>si_resolution = resolution f, si_bitrate = bitrate f,
                              si_startTime = startTime f,
                              si_duration = (now - startTime f) div 1000\<rparr>\<rparr>)"

definition canStream :: "AppState \<Rightarrow> bool" where
  "canStream s = (stream s = Offline)"

text \<open>\<open>t_start\<close> is \<^verbatim>\<open>new Date()\<close> of the object literal, \<open>t_emit\<close> the \<^verbatim>\<open>Date.now()\<close> of the
  snapshot that is emitted.\<close>

definition startStream :: "AppState \<Rightarrow> Metadata \<Rightarrow> int \<Rightarrow> int \<Rightarrow> error + AppState" where
  "startStream s metadata t_start t_emit =
     (case stream s of
        Live _ \<Rightarrow> Inl (Error ''Stream already active'')
      | Offline \<Rightarrow>
          (let s' = s\<lparr>stream := Live \<lparr>publisherIP = md_publisherIP metadata,
                                        resolution = or_string (md_resolution metadata) ''unknown'',
                                        bitrate = or_number (md_bitrate metadata) 0,
                                        startTime = t_start\<rparr>\<rparr>
           in Inr (emit (StreamChange (getStreamInfo s' t_emit)) s')))"

text \<open>\<^verbatim>\<open>stopStream\<close> has no guard: it assigns the offline object and emits. The snapshot of an
  offline stream does not read the clock.\<close>

definition stopStream :: "AppState \<Rightarrow> AppState" where
  "stopStream s =
     (let s' = s\<lparr>stream := Offline\<rparr>
      in emit (StreamChange (getStreamInfo s' 0)) s')"

text \<open>The two guards of \<^verbatim>\<open>updateStreamMetadata\<close>: the value to write, if the guard passes.
  \<^verbatim>\<open>metadata.resolution && metadata.resolution !== 'unknown'\<close> and
  \<^verbatim>\<open>metadata.bitrate && metadata.bitrate > 0\<close>.\<close>

fun resolution_guard :: "string option \<Rightarrow> string option" where
  "resolution_guard None = None"
| "resolution_guard (Some r) = (if r \<noteq> [] \<and> r \<noteq> ''unknown'' then Some r else None)"

fun bitrate_guard :: "int option \<Rightarrow> int option" where
  "bitrate_guard None = None"
| "bitrate_guard (Some b) = (if b \<noteq> 0 \<and> b > 0 then Some b else None)"

definition updateStreamMetadata :: "AppState \<Rightarrow> Metadata \<Rightarrow> int \<Rightarrow> AppState" where
  "updateStreamMetadata s metadata now =
     (case stream s of
        Offline \<Rightarrow> s
      | Live f \<Rightarrow>
          (let (f1, updated1) =
                 (case resolution_guard (md_resolution metadata) of
                    Some r \<Rightarrow> (f\<lparr>resolution := r\<rparr>, True)
                  | None \<Rightarrow> (f, False));
               (f2, updated2) =
                 (case bitrate_guard (md_bitrate metadata) of
                    Some b \<Rightarrow> (f1\<lparr>bitrate := b\<rparr>, True)
                  | None \<Rightarrow> (f1, updated1));
               s' = s\<lparr>stream := Live f2\<rparr>
           in if updated2 then emit (StreamChange (getStreamInfo s' now)) s' else s'))"

text \<open>\<open>uuid\<close> is the value of \<^verbatim>\<open>crypto.randomUUID()\<close>, \<open>t1\<close> and \<open>t2\<close> the two
  \<^verbatim>\<open>new Date()\<close> of the session literal. The result is the returned session (\<open>None\<close> for
  \<^verbatim>\<open>null\<close>) and the new state.\<close>

definition addViewer ::
  "AppState \<Rightarrow> WebSocketRef \<Rightarrow> string \<Rightarrow> int \<Rightarrow> int \<Rightarrow> ViewerSession option \<times> AppState" where
  "addViewer s ws uuid t1 t2 =
     (if of_nat (length (viewers s)) \<ge> maxViewers s then (None, s)
      else
        (let session = \<lparr>session_id = uuid, connectedAt = t1, lastPing = t2,
                        quality = ''1080p'', websocket = ws\<rparr>;
             s' = s\<lparr>viewers := AList.update (session_id session) session (viewers s)\<rparr>
         in (Some session, emit (ViewerChange (getViewerCount s')) s')))"

definition removeViewer :: "AppState \<Rightarrow> string \<Rightarrow> AppState" where
  "removeViewer s i =
     (if map_of (viewers s) i \<noteq> None then
        (let s' = s\<lparr>viewers := AList.delete i (viewers s)\<rparr>
         in emit (ViewerChange (getViewerCount s')) s')
      else s)"

definition updateViewerQuality :: "AppState \<Rightarrow> string \<Rightarrow> string \<Rightarrow> AppState" where
  "updateViewerQuality s i q =
     (case map_of (viewers s) i of
        Some session \<Rightarrow> s\<lparr>viewers := AList.update i (session\<lparr>quality := q\<rparr>) (viewers s)\<rparr>
      | None \<Rightarrow> s)"

definition updateViewerPing :: "AppState \<Rightarrow> string \<Rightarrow> int \<Rightarrow> AppState" where
  "updateViewerPing s i now =
     (case map_of (viewers s) i of
        Some session \<Rightarrow> s\<lparr>viewers := AList.update i (session\<lparr>lastPing := now\<rparr>) (viewers s)\<rparr>
      | None \<Rightarrow> s)"

definition isRoomFull :: "AppState \<Rightarrow> bool" where
  "isRoomFull s = (of_nat (length (viewers s)) \<ge> maxViewers s)"

text \<open>A call of one of the methods, and a sequence of calls from a state. A call of
  \<^verbatim>\<open>startStream\<close> that throws leaves the state as it was.\<close>

datatype call =
    StartStream Metadata int int
  | StopStream
  | UpdateStreamMetadata Metadata int
  | AddViewer WebSocketRef string int int
  | RemoveViewer string
  | UpdateViewerQuality string string
  | UpdateViewerPing string int

fun perform :: "AppState \<Rightarrow> call \<Rightarrow> AppState" where
  "perform s (StartStream m t_start t_emit) =
     (case startStream s m t_start t_emit of Inl _ \<Rightarrow> s | Inr s' \<Rightarrow> s')"
| "perform s StopStream = stopStream s"
| "perform s (UpdateStreamMetadata m now) = updateStreamMetadata s m now"
| "perform s (AddViewer ws uuid t1 t2) = snd (addViewer s ws uuid t1 t2)"
| "perform s (RemoveViewer i) = removeViewer s i"
| "perform s (UpdateViewerQuality i q) = updateViewerQuality s i q"
| "perform s (UpdateViewerPing i now) = updateViewerPing s i now"

fun run :: "AppState \<Rightarrow> call list \<Rightarrow> AppState" where
  "run s [] = s"
| "run s (c # cs) = run (perform s c) cs"


section \<open>Publish admission: \<^verbatim>\<open>src/server/rtmp.js\<close>\<close>

text \<open>\<^verbatim>\<open>String.prototype.split\<close> with a one-character separator: the pieces between the
  separators, in order; a string without separator is its own single piece.\<close>

fun js_split :: "char \<Rightarrow> string \<Rightarrow> string list" where
  "js_split sep [] = [[]]"
| "js_split sep (c # cs) =
     (if c = sep then [] # js_split sep cs
      else (case js_split sep cs of
              p # ps \<Rightarrow> (c # p) # ps
            | [] \<Rightarrow> [[c]]))"

text \<open>
  The \<^verbatim>\<open>prePublish\<close> handler. It takes one of three branches; in the two rejecting ones it
  calls \<^verbatim>\<open>session.reject()\<close> if \<^verbatim>\<open>nms.getSession(id)\<close> found a session
  (\<open>sessionFound\<close>). The result is the branch, whether \<^verbatim>\<open>reject()\<close> was called, and the
  application state after the handler.
\<close>

datatype verdict = InvalidStreamPath | StreamAlreadyActive | StreamAllowed

definition prePublish :: "AppState \<Rightarrow> bool \<Rightarrow> string \<Rightarrow> verdict \<times> bool \<times> AppState" where
  "prePublish appState sessionFound streamPath =
     (let pathParts = js_split CHR ''/'' streamPath
      in if length pathParts < 3 then (InvalidStreamPath, sessionFound, appState)
         else if pathParts ! 1 \<noteq> ''live'' then (InvalidStreamPath, sessionFound, appState)
         else if pathParts ! 2 = [] then (InvalidStreamPath, sessionFound, appState)
         else if \<not> canStream appState then (StreamAlreadyActive, sessionFound, appState)
         else (StreamAllowed, False, appState))"

text \<open>The shape of a publish path in the words of the specification: an application
  segment and a stream-key segment, both non-empty.\<close>

definition spec_path_shape :: "string \<Rightarrow> bool" where
  "spec_path_shape streamPath =
     (case js_split CHR ''/'' streamPath of
        _ # app # key # _ \<Rightarrow> app \<noteq> [] \<and> key \<noteq> []
      | _ \<Rightarrow> False)"

section \<open>Transcoder process: \<^verbatim>\<open>src/server/transcoder.js\<close>\<close>

text \<open>
  The module-level variables of \<^verbatim>\<open>transcoder.js\<close> and what its handlers act on. The
  application state object that \<^verbatim>\<open>setAppState\<close> stores is shared with the rest of the
  server; here it lives in the field \<open>appStateRef\<close>. \<open>onCrashCallback\<close> says whether a
  callback is registered, \<open>crashReports\<close> lists the arguments of its calls (\<open>None\<close> is the
  \<^verbatim>\<open>null\<close> exit code of a process killed by a signal). \<open>hlsFiles\<close> are the files under
  the output directory and \<open>cleanups\<close> counts the calls of \<^verbatim>\<open>cleanupHlsFiles\<close>.
  A child process records the signals sent to it and whether \<^verbatim>\<open>stopTranscoder\<close> has
  registered its \<^verbatim>\<open>once('close')\<close> listener on it.
\<close>

datatype signal = SIGTERM | SIGKILL

record ChildProcess =
  signals :: "signal list"
  stopCloseListener :: bool

record Transcoder =
  ffmpegProcess :: "ChildProcess option"
  isStoppingTranscoder :: bool
  appStateRef :: "AppState option"
  onCrashCallback :: bool
  crashReports :: "int option list"
  hlsFiles :: "string list"
  cleanups :: nat
  killTimeout :: bool

definition setAppState :: "AppState option \<Rightarrow> bool \<Rightarrow> Transcoder \<Rightarrow> Transcoder" where
  "setAppState appState onCrash t = t\<lparr>appStateRef := appState, onCrashCallback := onCrash\<rparr>"

text \<open>\<^verbatim>\<open>cleanupHlsFiles\<close> unlinks every file under the output directory; file-system
  errors, which it catches and logs, are outside the model.\<close>

definition cleanupHlsFiles :: "Transcoder \<Rightarrow> Transcoder" where
  "cleanupHlsFiles t = t\<lparr>hlsFiles := [], cleanups := Suc (cleanups t)\<rparr>"

text \<open>The guarded call \<^verbatim>\<open>appStateRef.stopStream()\<close> of the two handlers of
  \<^verbatim>\<open>startTranscoder\<close>.\<close>

definition reportOffline :: "Transcoder \<Rightarrow> Transcoder" where
  "reportOffline t =
     (case appStateRef t of
        None \<Rightarrow> t
      | Some a \<Rightarrow>
          (case stream a of
             Live _ \<Rightarrow> t\<lparr>appStateRef := Some (stopStream a)\<rparr>
           | Offline \<Rightarrow> t))"

text \<open>The \<^verbatim>\<open>'close'\<close> listener that \<^verbatim>\<open>startTranscoder\<close> registers.\<close>

definition onClose :: "int option \<Rightarrow> Transcoder \<Rightarrow> Transcoder" where
  "onClose code t =
     (let wasExpectedStop = isStoppingTranscoder t;
          t1 = t\<lparr>ffmpegProcess := None\<rparr>
      in if \<not> wasExpectedStop \<and> code \<noteq> Some 0 then
           (let t2 = reportOffline t1;
                t3 = cleanupHlsFiles t2
            in if onCrashCallback t3 then t3\<lparr>crashReports := crashReports t3 @ [code]\<rparr>
               else t3)
         else t1)"

text \<open>The \<^verbatim>\<open>'error'\<close> listener that \<^verbatim>\<open>startTranscoder\<close> registers.\<close>

definition onError :: "Transcoder \<Rightarrow> Transcoder" where
  "onError t =
     (let wasExpectedStop = isStoppingTranscoder t;
          t1 = t\<lparr>ffmpegProcess := None\<rparr>
      in if \<not> wasExpectedStop then
           (let t2 = reportOffline t1;
                t3 = cleanupHlsFiles t2
            in if onCrashCallback t3 then t3\<lparr>crashReports := crashReports t3 @ [Some (- 1)]\<rparr>
               else t3)
         else t1)"

text \<open>\<^verbatim>\<open>stopTranscoder\<close>, the listener it registers with \<^verbatim>\<open>once('close')\<close>, and its
  kill timer.\<close>

definition stopTranscoder :: "Transcoder \<Rightarrow> Transcoder" where
  "stopTranscoder t =
     (case ffmpegProcess t of
        None \<Rightarrow> (if \<not> isStoppingTranscoder t then cleanupHlsFiles t else t)
      | Some p \<Rightarrow>
          (if isStoppingTranscoder t then t
           else t\<lparr>isStoppingTranscoder := True,
                  ffmpegProcess := Some (p\<lparr>signals := signals p @ [SIGTERM],
                                           stopCloseListener := True\<rparr>),
                  killTimeout := True\<rparr>))"

definition onStopClose :: "Transcoder \<Rightarrow> Transcoder" where
  "onStopClose t =
     cleanupHlsFiles (t\<lparr>killTimeout := False, ffmpegProcess := None,
                        isStoppingTranscoder := False\<rparr>)"

definition killTimeoutFires :: "Transcoder \<Rightarrow> Transcoder" where
  "killTimeoutFires t =
     (if killTimeout t then
        (case ffmpegProcess t of
           Some p \<Rightarrow> t\<lparr>killTimeout := False,
                        ffmpegProcess := Some (p\<lparr>signals := signals p @ [SIGKILL]\<rparr>)\<rparr>
         | None \<Rightarrow> t\<lparr>killTimeout := False\<rparr>)
      else t)"

text \<open>The process object \<open>p\<close> emits \<^verbatim>\<open>'close'\<close> with its exit code: its listeners run in
  the order of their registration, the one of \<^verbatim>\<open>startTranscoder\<close> first, then the one of
  \<^verbatim>\<open>stopTranscoder\<close> if it was registered on \<open>p\<close>. The listeners sit on the process
  object, so they run whatever the variable \<^verbatim>\<open>ffmpegProcess\<close> holds by then.\<close>

definition processClose :: "ChildProcess \<Rightarrow> int option \<Rightarrow> Transcoder \<Rightarrow> Transcoder" where
  "processClose p code t =
     (let t1 = onClose code t
      in if stopCloseListener p then onStopClose t1 else t1)"

section \<open>Viewer channels and heartbeat: \<^verbatim>\<open>src/server/websocket.js\<close>\<close>

text \<open>
  A viewer's socket, as far as the heartbeat touches it: the property \<^verbatim>\<open>isAlive\<close> that
  \<^verbatim>\<open>handleConnection\<close> adds (\<open>None\<close> while it is undefined), the number of pings sent, and
  whether \<^verbatim>\<open>terminate()\<close> was called. A terminated socket closes and leaves
  \<^verbatim>\<open>wss.clients\<close>, so that neither a later tick nor a pong reaches it.
\<close>

record WebSocket =
  isAlive :: "bool option"
  pingsSent :: nat
  terminated :: bool

definition newWebSocket :: WebSocket where
  "newWebSocket = \<lparr>isAlive = None, pingsSent = 0, terminated = False\<rparr>"

text \<open>An admitted connection: \<^verbatim>\<open>ws.isAlive = true\<close> in \<^verbatim>\<open>handleConnection\<close>.\<close>

definition admitted :: "WebSocket \<Rightarrow> WebSocket" where
  "admitted ws = ws\<lparr>isAlive := Some True\<rparr>"

text \<open>The \<^verbatim>\<open>'pong'\<close> listener, on the socket.\<close>

definition onPong :: "WebSocket \<Rightarrow> WebSocket" where
  "onPong ws = ws\<lparr>isAlive := Some True\<rparr>"

text \<open>The body of the \<^verbatim>\<open>forEach\<close> in \<^verbatim>\<open>startHeartbeat\<close>, and one tick over the clients.\<close>

definition heartbeatClient :: "WebSocket \<Rightarrow> WebSocket" where
  "heartbeatClient ws =
     (if isAlive ws = Some False then ws\<lparr>terminated := True\<rparr>
      else ws\<lparr>isAlive := Some False, pingsSent := Suc (pingsSent ws)\<rparr>)"

definition heartbeatTick :: "WebSocket list \<Rightarrow> WebSocket list" where
  "heartbeatTick clients = map heartbeatClient clients"

text \<open>The life of one channel: ticks of the heartbeat and pongs of the peer.\<close>

datatype hb_event = Tick | Pong

fun channelStep :: "WebSocket \<Rightarrow> hb_event \<Rightarrow> WebSocket" where
  "channelStep ws Tick = (if terminated ws then ws else heartbeatClient ws)"
| "channelStep ws Pong = (if terminated ws then ws else onPong ws)"

definition channelRun :: "WebSocket \<Rightarrow> hb_event list \<Rightarrow> WebSocket" where
  "channelRun ws evs = foldl channelStep ws evs"

text \<open>In the words of the specification, a channel is presumed dead at a tick unless it has
  responded to a probe since the previous tick; \<open>history\<close> holds the events before the tick,
  oldest first.\<close>

definition spec_presumed_dead :: "hb_event list \<Rightarrow> bool" where
  "spec_presumed_dead history =
     (Tick \<in> set history \<and> Pong \<notin> set (takeWhile (\<lambda>e. e \<noteq> Tick) (rev history)))"

section \<open>Example states\<close>

text \<open>A publisher's metadata, the state after it started streaming into a fresh server
  with room for ten viewers, and a transcoder whose process runs for that stream.\<close>

definition example_metadata :: Metadata where
  "example_metadata =
     \<lparr>md_publisherIP = Some ''10.0.0.5'', md_resolution = Some ''1280x720'',
      md_bitrate = Some 2500\<rparr>"

definition example_live :: AppState where
  "example_live = perform (newAppState 10) (StartStream example_metadata 7 8)"

definition example_running :: Transcoder where
  "example_running =
     \<lparr>ffmpegProcess = Some \<lparr>signals = [], stopCloseListener = False\<rparr>,
      isStoppingTranscoder = False,
      appStateRef = Some example_live,
      onCrashCallback = True,
      crashReports = [],
      hlsFiles = [''master.m3u8'', ''720p/segment_000.ts''],
      cleanups = 0,
      killTimeout = False\<rparr>"

section \<open>Properties of the application state\<close>




lemma perform_maxViewers: "maxViewers (perform s c) = maxViewers s"
  by (cases c)
     (auto simp: startStream_def stopStream_def updateStreamMetadata_def addViewer_def
        removeViewer_def updateViewerQuality_def updateViewerPing_def emit_def Let_def
        split: Stream.splits option.splits prod.splits sum.splits)



lemma run_maxViewers: "maxViewers (run s cs) = maxViewers s"
  by (induction cs arbitrary: s) (auto simp: perform_maxViewers)










subsection \<open>Viewer capacity\<close>




subsection \<open>Stream operations\<close>

text \<open>
  Claim C2, as stated, fails: \<^verbatim>\<open>stopStream\<close> on the fresh, offline state changes the state
  and emits a stream-change notification, and a second call emits another one.
\<close>

theorem stopStream_offline_counterexample:
  "stream (newAppState 10) = Offline
   \<and> stopStream (newAppState 10) \<noteq> newAppState 10
   \<and> emitted (newAppState 10) = []
   \<and> emitted (stopStream (newAppState 10)) =
        [StreamChange \<lparr>live = False, viewerCount = 0, streamInfo = None\<rparr>]
   \<and> emitted (stopStream (stopStream (newAppState 10))) =
        [StreamChange \<lparr>live = False, viewerCount = 0, streamInfo = None\<rparr>,
         StreamChange \<lparr>live = False, viewerCount = 0, streamInfo = None\<rparr>]"
  by (simp add: newAppState_def stopStream_def getStreamInfo_def emit_def Let_def)

text \<open>
  Claim C2, amended. \<^verbatim>\<open>stopStream\<close> always sets the stream offline, which drops the
  live-only fields, keeps the viewers, and emits one stream-change notification on every
  call, also when the stream is already offline. It is idempotent on the stream and the
  viewers only: two calls in a row leave the stream and viewers of one call and emit two
  notifications.
\<close>

theorem stopStream_emits_on_every_call:
  "stream (stopStream s) = Offline
   \<and> viewers (stopStream s) = viewers s
   \<and> maxViewers (stopStream s) = maxViewers s
   \<and> emitted (stopStream s) =
        emitted s @ [StreamChange \<lparr>live = False, viewerCount = length (viewers s),
                                   streamInfo = None\<rparr>]
   \<and> stream (stopStream (stopStream s)) = stream (stopStream s)
   \<and> viewers (stopStream (stopStream s)) = viewers (stopStream s)
   \<and> length (emitted (stopStream (stopStream s))) = length (emitted s) + 2"
  by (simp add: stopStream_def getStreamInfo_def emit_def Let_def)

text \<open>
  Claim C3. \<^verbatim>\<open>startStream\<close> on a live stream throws the error
  \<^verbatim>\<open>'Stream already active'\<close> and the state stays as it was. On an offline stream it
  succeeds: the stream is live with the given publisher address, the given resolution
  (\<^verbatim>\<open>'unknown'\<close> if missing or empty), the given bitrate (0 if missing) and the start time,
  the viewers are untouched, and one stream-change notification carries the new snapshot.
\<close>

theorem startStream_fails_when_live:
  "(stream s = Live f \<longrightarrow>
      startStream s m t_start t_emit = Inl (Error ''Stream already active'')
      \<and> perform s (StartStream m t_start t_emit) = s)
   \<and> (stream s = Offline \<longrightarrow>
        (\<exists>s'. startStream s m t_start t_emit = Inr s'
           \<and> stream s' =
               Live \<lparr>publisherIP = md_publisherIP m,
                     resolution = (case md_resolution m of
                                     Some r \<Rightarrow> if r = [] then ''unknown'' else r
                                   | None \<Rightarrow> ''unknown''),
                     bitrate = (case md_bitrate m of Some b \<Rightarrow> b | None \<Rightarrow> 0),
                     startTime = t_start\<rparr>
           \<and> viewers s' = viewers s
           \<and> maxViewers s' = maxViewers s
           \<and> emitted s' = emitted s @ [StreamChange (getStreamInfo s' t_emit)]
           \<and> live (getStreamInfo s' t_emit)))"
  by (auto simp: startStream_def emit_def Let_def getStreamInfo_def split: option.splits)

theorem startStream_fails_when_live_witness:
  "stream (newAppState 10) = Offline
   \<and> startStream (newAppState 10) example_metadata 7 8 =
      Inr \<lparr>maxViewers = 10,
           stream = Live \<lparr>publisherIP = Some ''10.0.0.5'', resolution = ''1280x720'',
                          bitrate = 2500, startTime = 7\<rparr>,
           viewers = [],
           emitted = [StreamChange \<lparr>live = True, viewerCount = 0,
                        streamInfo = Some \<lparr>si_resolution = ''1280x720'', si_bitrate = 2500,
                                           si_startTime = 7, si_duration = 0\<rparr>\<rparr>]\<rparr>
   \<and> stream example_live =
       Live \<lparr>publisherIP = Some ''10.0.0.5'', resolution = ''1280x720'', bitrate = 2500,
             startTime = 7\<rparr>
   \<and> startStream example_live
        \<lparr>md_publisherIP = Some ''10.0.0.6'', md_resolution = Some ''640x480'',
          md_bitrate = Some 100\<rparr> 20 21 = Inl (Error ''Stream already active'')
   \<and> perform example_live
        (StartStream \<lparr>md_publisherIP = Some ''10.0.0.6'', md_resolution = Some ''640x480'',
          md_bitrate = Some 100\<rparr> 20 21) = example_live"
  using startStream_fails_when_live
          [of "newAppState 10"
              "\<lparr>publisherIP = Some ''10.0.0.5'', resolution = ''1280x720'', bitrate = 2500,
                startTime = 7\<rparr>"
              example_metadata 7 8]
        startStream_fails_when_live
          [of example_live
              "\<lparr>publisherIP = Some ''10.0.0.5'', resolution = ''1280x720'', bitrate = 2500,
                startTime = 7\<rparr>"
              "\<lparr>md_publisherIP = Some ''10.0.0.6'', md_resolution = Some ''640x480'',
                md_bitrate = Some 100\<rparr>" 20 21]
  by (simp add: example_live_def example_metadata_def newAppState_def startStream_def emit_def
      Let_def getStreamInfo_def)

text \<open>
  Claim C7. \<^verbatim>\<open>updateStreamMetadata\<close> on an offline stream changes nothing. On a live stream
  the resolution is overwritten only by a present, non-empty resolution other than
  \<^verbatim>\<open>'unknown'\<close>, the bitrate only by a present bitrate above 0; in particular
  \<^verbatim>\<open>'unknown'\<close> and 0 keep the stored values. Publisher address and start time stay.
\<close>

theorem updateStreamMetadata_keeps_known_good:
  "(stream s = Offline \<longrightarrow> updateStreamMetadata s m now = s)
   \<and> (stream s = Live f \<longrightarrow>
        (\<exists>f'. stream (updateStreamMetadata s m now) = Live f'
           \<and> resolution f' =
               (case md_resolution m of
                  Some r \<Rightarrow> if r = [] \<or> r = ''unknown'' then resolution f else r
                | None \<Rightarrow> resolution f)
           \<and> bitrate f' =
               (case md_bitrate m of
                  Some b \<Rightarrow> if b \<le> 0 then bitrate f else b
                | None \<Rightarrow> bitrate f)
           \<and> (md_resolution m = Some ''unknown'' \<longrightarrow> resolution f' = resolution f)
           \<and> (md_bitrate m = Some 0 \<longrightarrow> bitrate f' = bitrate f)
           \<and> publisherIP f' = publisherIP f
           \<and> startTime f' = startTime f))"
  by (auto simp: updateStreamMetadata_def emit_def Let_def split: option.splits)

theorem updateStreamMetadata_keeps_known_good_witness:
  "stream (newAppState 10) = Offline
   \<and> updateStreamMetadata (newAppState 10) example_metadata 500 = newAppState 10
   \<and> stream example_live =
       Live \<lparr>publisherIP = Some ''10.0.0.5'', resolution = ''1280x720'', bitrate = 2500,
             startTime = 7\<rparr>
   \<and> stream (updateStreamMetadata example_live
         \<lparr>md_publisherIP = None, md_resolution = Some ''unknown'', md_bitrate = Some 0\<rparr> 500) =
       Live \<lparr>publisherIP = Some ''10.0.0.5'', resolution = ''1280x720'', bitrate = 2500,
             startTime = 7\<rparr>
   \<and> stream (updateStreamMetadata example_live
         \<lparr>md_publisherIP = None, md_resolution = Some ''1920x1080'', md_bitrate = Some 0\<rparr> 500) =
       Live \<lparr>publisherIP = Some ''10.0.0.5'', resolution = ''1920x1080'', bitrate = 2500,
             startTime = 7\<rparr>"
  using updateStreamMetadata_keeps_known_good
          [of "newAppState 10"
              example_metadata 500
              "\<lparr>publisherIP = Some ''10.0.0.5'', resolution = ''1280x720'', bitrate = 2500,
                startTime = 7\<rparr>"]
        updateStreamMetadata_keeps_known_good
          [of example_live
              "\<lparr>md_publisherIP = None, md_resolution = Some ''unknown'', md_bitrate = Some 0\<rparr>"
              500
              "\<lparr>publisherIP = Some ''10.0.0.5'', resolution = ''1280x720'', bitrate = 2500,
                startTime = 7\<rparr>"]
  by (simp add: example_live_def example_metadata_def newAppState_def startStream_def
      updateStreamMetadata_def emit_def Let_def getStreamInfo_def)

text \<open>
  Claim C8, as stated, fails: on the example stream, live with resolution 1280x720 and
  bitrate 2500, an update carrying exactly these two values leaves the stream as it is and
  emits a stream-change notification.
\<close>

theorem updateStreamMetadata_same_value_counterexample:
  "stream example_live =
     Live \<lparr>publisherIP = Some ''10.0.0.5'', resolution = ''1280x720'', bitrate = 2500,
           startTime = 7\<rparr>
   \<and> stream (updateStreamMetadata example_live
        \<lparr>md_publisherIP = None, md_resolution = Some ''1280x720'', md_bitrate = Some 2500\<rparr>
        500) = stream example_live
   \<and> emitted (updateStreamMetadata example_live
        \<lparr>md_publisherIP = None, md_resolution = Some ''1280x720'', md_bitrate = Some 2500\<rparr>
        500) =
      emitted example_live
        @ [StreamChange \<lparr>live = True, viewerCount = 0,
             streamInfo = Some \<lparr>si_resolution = ''1280x720'', si_bitrate = 2500,
                                si_startTime = 7, si_duration = 0\<rparr>\<rparr>]"
  by (simp add: example_live_def example_metadata_def newAppState_def startStream_def
      updateStreamMetadata_def emit_def Let_def getStreamInfo_def)

text \<open>
  Claim C8, amended. \<^verbatim>\<open>updateStreamMetadata\<close> emits a stream-change notification exactly
  when the stream is live and the update writes a field, that is, carries a non-empty
  resolution other than \<^verbatim>\<open>'unknown'\<close> or a bitrate above 0, whether or not the value
  written differs from the stored one; otherwise it emits nothing.
\<close>

theorem updateStreamMetadata_emits_iff_written:
  "(stream s = Offline \<longrightarrow> emitted (updateStreamMetadata s m now) = emitted s)
   \<and> (stream s = Live f \<longrightarrow>
        emitted (updateStreamMetadata s m now) =
          (if (\<exists>r. md_resolution m = Some r \<and> r \<noteq> [] \<and> r \<noteq> ''unknown'')
              \<or> (\<exists>b. md_bitrate m = Some b \<and> b > 0)
           then emitted s
                  @ [StreamChange (getStreamInfo (updateStreamMetadata s m now) now)]
           else emitted s))"
  by (cases "md_resolution m"; cases "md_bitrate m")
     (auto simp: updateStreamMetadata_def emit_def Let_def getStreamInfo_def)

theorem updateStreamMetadata_emits_iff_written_witness:
  "stream (newAppState 10) = Offline
   \<and> emitted (updateStreamMetadata (newAppState 10) example_metadata 500) =
       emitted (newAppState 10)
   \<and> stream example_live =
       Live \<lparr>publisherIP = Some ''10.0.0.5'', resolution = ''1280x720'', bitrate = 2500,
             startTime = 7\<rparr>
   \<and> emitted (updateStreamMetadata example_live
         \<lparr>md_publisherIP = None, md_resolution = Some ''unknown'', md_bitrate = Some 0\<rparr> 500) =
       emitted example_live
   \<and> length (emitted (updateStreamMetadata example_live
         \<lparr>md_publisherIP = None, md_resolution = Some ''unknown'', md_bitrate = Some 3000\<rparr>
         500)) = 2"
  using updateStreamMetadata_emits_iff_written
          [of "newAppState 10"
              example_metadata 500
              "\<lparr>publisherIP = Some ''10.0.0.5'', resolution = ''1280x720'', bitrate = 2500,
                startTime = 7\<rparr>"]
        updateStreamMetadata_emits_iff_written
          [of example_live
              "\<lparr>md_publisherIP = None, md_resolution = Some ''unknown'', md_bitrate = Some 0\<rparr>"
              500
              "\<lparr>publisherIP = Some ''10.0.0.5'', resolution = ''1280x720'', bitrate = 2500,
                startTime = 7\<rparr>"]
        updateStreamMetadata_emits_iff_written
          [of example_live
              "\<lparr>md_publisherIP = None, md_resolution = Some ''unknown'',
                md_bitrate = Some 3000\<rparr>"
              500
              "\<lparr>publisherIP = Some ''10.0.0.5'', resolution = ''1280x720'', bitrate = 2500,
                startTime = 7\<rparr>"]
  by (simp add: example_live_def example_metadata_def newAppState_def startStream_def
      updateStreamMetadata_def emit_def Let_def getStreamInfo_def)

subsection \<open>Frames of the operations\<close>

text \<open>
  Claim C10. \<^verbatim>\<open>startStream\<close>, \<^verbatim>\<open>stopStream\<close> and \<^verbatim>\<open>updateStreamMetadata\<close> leave the viewer
  sessions as they are; \<^verbatim>\<open>addViewer\<close>, \<^verbatim>\<open>removeViewer\<close>, \<^verbatim>\<open>updateViewerQuality\<close> and
  \<^verbatim>\<open>updateViewerPing\<close> leave the stream as it is. The last two never emit, and with an id
  that is not in the registry they leave the whole state unchanged.
\<close>

theorem stream_and_viewer_operations_disjoint:
  "(startStream s m t_start t_emit = Inr s' \<longrightarrow> viewers s' = viewers s)
   \<and> viewers (stopStream s) = viewers s
   \<and> viewers (updateStreamMetadata s m now) = viewers s
   \<and> stream (snd (addViewer s ws uuid t1 t2)) = stream s
   \<and> stream (removeViewer s i) = stream s
   \<and> stream (updateViewerQuality s i q) = stream s
   \<and> stream (updateViewerPing s i now) = stream s
   \<and> emitted (updateViewerQuality s i q) = emitted s
   \<and> emitted (updateViewerPing s i now) = emitted s
   \<and> (map_of (viewers s) i = None \<longrightarrow>
        updateViewerQuality s i q = s \<and> updateViewerPing s i now = s)"
  by (auto simp: startStream_def stopStream_def updateStreamMetadata_def addViewer_def
      removeViewer_def updateViewerQuality_def updateViewerPing_def emit_def Let_def
      split: Stream.splits option.splits prod.splits)

theorem stream_and_viewer_operations_disjoint_witness:
  "startStream (snd (addViewer (newAppState 10) 1 ''a'' 5 5)) example_metadata 7 8 =
      Inr (perform (snd (addViewer (newAppState 10) 1 ''a'' 5 5)) (StartStream example_metadata 7 8))
   \<and> viewers (perform (snd (addViewer (newAppState 10) 1 ''a'' 5 5))
        (StartStream example_metadata 7 8)) =
       viewers (snd (addViewer (newAppState 10) 1 ''a'' 5 5))
   \<and> viewers (stopStream (perform (snd (addViewer (newAppState 10) 1 ''a'' 5 5))
        (StartStream example_metadata 7 8))) =
       [(''a'', \<lparr>session_id = ''a'', connectedAt = 5, lastPing = 5, quality = ''1080p'',
                 websocket = 1\<rparr>)]
   \<and> map_of (viewers example_live) ''b'' = None
   \<and> updateViewerQuality example_live ''b'' ''720p'' = example_live
   \<and> updateViewerPing example_live ''b'' 9 = example_live"
  using stream_and_viewer_operations_disjoint
          [of "snd (addViewer (newAppState 10) 1 ''a'' 5 5)" example_metadata 7 8
              "perform (snd (addViewer (newAppState 10) 1 ''a'' 5 5))
                 (StartStream example_metadata 7 8)"
              500 1 "''c''" 5 5 "''b''" "''720p''"]
        stream_and_viewer_operations_disjoint
          [of example_live example_metadata 7 8 example_live 9 1 "''c''" 5 5 "''b''" "''720p''"]
  by (simp add: example_live_def example_metadata_def newAppState_def startStream_def
      stopStream_def addViewer_def emit_def Let_def getStreamInfo_def getViewerCount_def)

section \<open>Properties of the publish admission\<close>

lemma js_split_nonempty: "js_split sep s \<noteq> []"
  by (induction s) (auto split: list.splits)

lemma js_split_no_sep: "sep \<notin> set a \<Longrightarrow> js_split sep a = [a]"
  by (induction a) auto

lemma js_split_append_sep:
  "sep \<notin> set a \<Longrightarrow> js_split sep (a @ sep # b) = a # js_split sep b"
  by (induction a) auto

lemma js_split_single: "js_split sep s = [x] \<Longrightarrow> s = x \<and> sep \<notin> set x"
proof (induction s arbitrary: x)
  case Nil
  then show ?case by simp
next
  case (Cons c cs)
  then show ?case
    using js_split_nonempty [of sep cs]
    by (auto split: if_splits list.splits)
qed

lemma js_split_cons:
  "js_split sep s = x # y # ys \<Longrightarrow>
     \<exists>q. s = x @ sep # q \<and> sep \<notin> set x \<and> js_split sep q = y # ys"
proof (induction s arbitrary: x)
  case Nil
  then show ?case by simp
next
  case (Cons c cs)
  show ?case
  proof (cases "c = sep")
    case True
    with Cons.prems show ?thesis by auto
  next
    case False
    with Cons.prems obtain p where p: "js_split sep cs = p # y # ys" and x: "x = c # p"
      using js_split_nonempty [of sep cs] by (auto split: list.splits)
    from Cons.IH [OF p] obtain q where "cs = p @ sep # q" "sep \<notin> set p" "js_split sep q = y # ys"
      by blast
    with False x show ?thesis by auto
  qed
qed

lemma js_split_hd_rest:
  "js_split sep s = x # ys \<Longrightarrow> \<exists>r. s = x @ r \<and> sep \<notin> set x \<and> (r = [] \<or> hd r = sep)"
proof (cases ys)
  case Nil
  assume "js_split sep s = x # ys"
  with Nil show ?thesis using js_split_single [of sep s x] by auto
next
  case (Cons y ys')
  assume "js_split sep s = x # ys"
  with Cons show ?thesis using js_split_cons [of sep s x y ys'] by auto
qed

lemma live_path_string:
  "(\<exists>first key rest. js_split CHR ''/'' p = first # ''live'' # key # rest \<and> key \<noteq> []) \<longleftrightarrow>
   (\<exists>first key more. p = first @ ''/live/'' @ key @ more
      \<and> CHR ''/'' \<notin> set first \<and> CHR ''/'' \<notin> set key \<and> key \<noteq> []
      \<and> (more = [] \<or> hd more = CHR ''/''))"
  (is "?L \<longleftrightarrow> ?R")
proof
  assume ?L
  then obtain first key rest where sp: "js_split CHR ''/'' p = first # ''live'' # key # rest"
    and key: "key \<noteq> []" by blast
  from js_split_cons [OF sp] obtain q where q: "p = first @ CHR ''/'' # q" "CHR ''/'' \<notin> set first"
    "js_split CHR ''/'' q = ''live'' # key # rest" by blast
  from js_split_cons [OF q(3)] obtain q2 where q2: "q = ''live'' @ CHR ''/'' # q2"
    "js_split CHR ''/'' q2 = key # rest" by blast
  from js_split_hd_rest [OF q2(2)] obtain more where m: "q2 = key @ more" "CHR ''/'' \<notin> set key"
    "more = [] \<or> hd more = CHR ''/''" by blast
  have "p = first @ ''/live/'' @ key @ more" using q(1) q2(1) m(1) by simp
  with q(2) m key show ?R by blast
next
  assume ?R
  then obtain first key more where p: "p = first @ ''/live/'' @ key @ more"
    and f: "CHR ''/'' \<notin> set first" and k: "CHR ''/'' \<notin> set key" "key \<noteq> []"
    and m: "more = [] \<or> hd more = CHR ''/''" by blast
  have p': "p = first @ CHR ''/'' # (''live'' @ CHR ''/'' # (key @ more))" using p by simp
  have l: "CHR ''/'' \<notin> set ''live''" by simp
  have "\<exists>rest. js_split CHR ''/'' (key @ more) = key # rest"
  proof (cases more)
    case Nil
    then show ?thesis using js_split_no_sep [OF k(1)] by simp
  next
    case (Cons c cs)
    with m have "more = CHR ''/'' # cs" by simp
    then show ?thesis using js_split_append_sep [OF k(1), of cs] by simp
  qed
  then obtain rest where r: "js_split CHR ''/'' (key @ more) = key # rest" by blast
  have "js_split CHR ''/'' p = first # ''live'' # key # rest"
    unfolding p' js_split_append_sep [OF f] js_split_append_sep [OF l] r ..
  with k show ?L by blast
qed

lemma prePublish_verdict:
  "fst (prePublish a found p) = StreamAllowed \<longleftrightarrow>
     (\<exists>first key rest. js_split CHR ''/'' p = first # ''live'' # key # rest \<and> key \<noteq> [])
     \<and> stream a = Offline"
proof (cases "js_split CHR ''/'' p")
  case Nil
  then show ?thesis by (simp add: prePublish_def)
next
  case (Cons x xs)
  note c1 = this
  show ?thesis
  proof (cases xs)
    case Nil
    with c1 show ?thesis by (simp add: prePublish_def)
  next
    case (Cons y ys)
    note c2 = this
    show ?thesis
    proof (cases ys)
      case Nil
      with c1 c2 show ?thesis by (simp add: prePublish_def)
    next
      case (Cons z zs)
      with c1 c2 show ?thesis by (auto simp: prePublish_def canStream_def numeral_2_eq_2)
    qed
  qed
qed

text \<open>
  Claim C4, as stated, fails: the path \<^verbatim>\<open>/app/key\<close> has a non-empty application segment and
  a non-empty stream-key segment and no stream is live, yet the handler takes the
  invalid-path branch and rejects the session.
\<close>

theorem prePublish_application_segment_counterexample:
  "spec_path_shape ''/app/key''
   \<and> stream (newAppState 10) = Offline
   \<and> prePublish (newAppState 10) True ''/app/key'' = (InvalidStreamPath, True, newAppState 10)"
  by (simp add: spec_path_shape_def prePublish_def newAppState_def numeral_2_eq_2)

text \<open>
  Claim C4, amended. The \<^verbatim>\<open>prePublish\<close> handler accepts a publish attempt if and only if the
  path is \<^verbatim>\<open>first/live/key\<close>, optionally followed by \<^verbatim>\<open>/\<close> and more, where \<open>first\<close> (the
  part before the first slash, empty in \<^verbatim>\<open>/live/key\<close>) and \<open>key\<close> contain no slash and
  \<open>key\<close> is not empty, so the application segment must be exactly \<^verbatim>\<open>live\<close>, and no stream
  is live. The handler never changes the application state, and it calls
  \<^verbatim>\<open>session.reject()\<close> exactly when it does not accept and the session was found.
\<close>

theorem prePublish_accepts_live_path_when_offline:
  "(fst (prePublish a found p) = StreamAllowed \<longleftrightarrow>
      (\<exists>first key more. p = first @ ''/live/'' @ key @ more
         \<and> CHR ''/'' \<notin> set first \<and> CHR ''/'' \<notin> set key \<and> key \<noteq> []
         \<and> (more = [] \<or> hd more = CHR ''/''))
      \<and> stream a = Offline)
   \<and> snd (snd (prePublish a found p)) = a
   \<and> fst (snd (prePublish a found p)) = (found \<and> fst (prePublish a found p) \<noteq> StreamAllowed)"
proof (intro conjI)
  show "fst (prePublish a found p) = StreamAllowed \<longleftrightarrow>
      (\<exists>first key more. p = first @ ''/live/'' @ key @ more
         \<and> CHR ''/'' \<notin> set first \<and> CHR ''/'' \<notin> set key \<and> key \<noteq> []
         \<and> (more = [] \<or> hd more = CHR ''/''))
      \<and> stream a = Offline"
    unfolding prePublish_verdict live_path_string ..
  show "snd (snd (prePublish a found p)) = a"
    by (simp add: prePublish_def Let_def)
  show "fst (snd (prePublish a found p)) = (found \<and> fst (prePublish a found p) \<noteq> StreamAllowed)"
    by (simp add: prePublish_def Let_def)
qed

theorem prePublish_accepts_live_path_when_offline_witness:
  "prePublish (newAppState 10) True ''/live/stream'' = (StreamAllowed, False, newAppState 10)
   \<and> prePublish (newAppState 10) True ''/live/'' = (InvalidStreamPath, True, newAppState 10)
   \<and> prePublish example_live True ''/live/stream'' = (StreamAlreadyActive, True, example_live)"
  using prePublish_accepts_live_path_when_offline [of "newAppState 10" True "''/live/stream''"]
        prePublish_accepts_live_path_when_offline [of "newAppState 10" True "''/live/''"]
        prePublish_accepts_live_path_when_offline [of example_live True "''/live/stream''"]
  by (simp add: prePublish_def newAppState_def canStream_def numeral_2_eq_2 numeral_3_eq_3
      example_live_def example_metadata_def startStream_def emit_def Let_def getStreamInfo_def)

section \<open>Properties of the transcoder process\<close>

text \<open>
  Claim C5. When the process closes with an exit code other than 0 and \<^verbatim>\<open>stopTranscoder\<close>
  has not set its flag, the \<^verbatim>\<open>'close'\<close> listener of \<^verbatim>\<open>startTranscoder\<close> calls
  \<^verbatim>\<open>stopStream\<close> on the application state only if that state is live (an offline state is
  left as it is, with no notification), empties the output directory with one call of
  \<^verbatim>\<open>cleanupHlsFiles\<close>, and calls the registered crash callback once with the exit code.
  On a process without a \<^verbatim>\<open>stopTranscoder\<close> listener, this listener is the whole close
  event.
\<close>

theorem crash_reports_offline_cleans_and_notifies:
  "\<not> isStoppingTranscoder t \<and> code \<noteq> Some 0 \<longrightarrow>
     ffmpegProcess (onClose code t) = None
     \<and> appStateRef (onClose code t) =
         (case appStateRef t of
            None \<Rightarrow> None
          | Some a \<Rightarrow> (case stream a of Live f \<Rightarrow> Some (stopStream a) | Offline \<Rightarrow> Some a))
     \<and> (\<forall>a. appStateRef t = Some a \<and> stream a = Offline \<longrightarrow> appStateRef (onClose code t) = Some a)
     \<and> (\<forall>a f. appStateRef t = Some a \<and> stream a = Live f \<longrightarrow>
           (\<exists>a'. appStateRef (onClose code t) = Some a' \<and> stream a' = Offline
               \<and> viewers a' = viewers a
               \<and> emitted a' = emitted a @ [StreamChange \<lparr>live = False,
                                   viewerCount = length (viewers a), streamInfo = None\<rparr>]))
     \<and> hlsFiles (onClose code t) = []
     \<and> cleanups (onClose code t) = Suc (cleanups t)
     \<and> crashReports (onClose code t) =
         (if onCrashCallback t then crashReports t @ [code] else crashReports t)
     \<and> (\<forall>p. \<not> stopCloseListener p \<longrightarrow> processClose p code t = onClose code t)"
  by (auto simp: onClose_def reportOffline_def cleanupHlsFiles_def processClose_def Let_def
      stopStream_def emit_def getStreamInfo_def
      split: option.splits Stream.splits)

theorem crash_reports_offline_cleans_and_notifies_witness:
  "\<not> isStoppingTranscoder example_running
   \<and> appStateRef example_running = Some example_live
   \<and> stream example_live =
       Live \<lparr>publisherIP = Some ''10.0.0.5'', resolution = ''1280x720'', bitrate = 2500,
             startTime = 7\<rparr>
   \<and> ffmpegProcess example_running = Some \<lparr>signals = [], stopCloseListener = False\<rparr>
   \<and> processClose \<lparr>signals = [], stopCloseListener = False\<rparr> (Some 1) example_running =
       \<lparr>ffmpegProcess = None, isStoppingTranscoder = False,
        appStateRef = Some (stopStream example_live), onCrashCallback = True,
        crashReports = [Some 1], hlsFiles = [], cleanups = 1, killTimeout = False\<rparr>
   \<and> appStateRef (onClose (Some 1) (example_running\<lparr>appStateRef := Some (newAppState 10)\<rparr>)) =
       Some (newAppState 10)"
  using crash_reports_offline_cleans_and_notifies [of example_running "Some 1"]
        crash_reports_offline_cleans_and_notifies
          [of "example_running\<lparr>appStateRef := Some (newAppState 10)\<rparr>" "Some 1"]
  by (simp add: example_running_def example_live_def example_metadata_def newAppState_def
      startStream_def emit_def Let_def getStreamInfo_def onClose_def reportOffline_def
      cleanupHlsFiles_def processClose_def stopStream_def)

text \<open>
  Claim C6. When \<^verbatim>\<open>stopTranscoder\<close> was called on a running process and the process then
  closes, with whatever exit code and whether or not the kill timer fired in between, the
  process carries the listener of \<^verbatim>\<open>stopTranscoder\<close>; the
  \<^verbatim>\<open>'close'\<close> listener of \<^verbatim>\<open>startTranscoder\<close> sees the flag and does no cleanup, no
  report to the application state and no crash callback; the listener of
  \<^verbatim>\<open>stopTranscoder\<close> does the one cleanup and resets the flag. A second
  \<^verbatim>\<open>stopTranscoder\<close> while the first is pending does nothing.
\<close>

theorem stop_then_exit_cleans_up_once:
  "ffmpegProcess t = Some p \<and> \<not> isStoppingTranscoder t \<and> \<not> stopCloseListener p \<longrightarrow>
     isStoppingTranscoder (stopTranscoder t)
     \<and> cleanups (stopTranscoder t) = cleanups t
     \<and> stopTranscoder (stopTranscoder t) = stopTranscoder t
     \<and> cleanups (onClose code (stopTranscoder t)) = cleanups t
     \<and> hlsFiles (onClose code (stopTranscoder t)) = hlsFiles t
     \<and> appStateRef (onClose code (stopTranscoder t)) = appStateRef t
     \<and> crashReports (onClose code (stopTranscoder t)) = crashReports t
     \<and> ffmpegProcess (stopTranscoder t) =
         Some (p\<lparr>signals := signals p @ [SIGTERM], stopCloseListener := True\<rparr>)
     \<and> ffmpegProcess (killTimeoutFires (stopTranscoder t)) =
         Some (p\<lparr>signals := signals p @ [SIGTERM, SIGKILL], stopCloseListener := True\<rparr>)
     \<and> (\<forall>q. stopCloseListener q \<longrightarrow>
           processClose q code (stopTranscoder t) =
             t\<lparr>ffmpegProcess := None, isStoppingTranscoder := False, killTimeout := False,
               hlsFiles := [], cleanups := Suc (cleanups t)\<rparr>
         \<and> processClose q code (killTimeoutFires (stopTranscoder t)) =
             t\<lparr>ffmpegProcess := None, isStoppingTranscoder := False, killTimeout := False,
               hlsFiles := [], cleanups := Suc (cleanups t)\<rparr>)"
  by (auto simp: stopTranscoder_def onClose_def onStopClose_def processClose_def
      killTimeoutFires_def cleanupHlsFiles_def Let_def)

theorem stop_then_exit_cleans_up_once_witness:
  "ffmpegProcess example_running = Some \<lparr>signals = [], stopCloseListener = False\<rparr>
   \<and> \<not> isStoppingTranscoder example_running
   \<and> ffmpegProcess (stopTranscoder example_running) =
       Some \<lparr>signals = [SIGTERM], stopCloseListener = True\<rparr>
   \<and> processClose \<lparr>signals = [SIGTERM], stopCloseListener = True\<rparr> (Some 255)
        (stopTranscoder example_running) =
       \<lparr>ffmpegProcess = None, isStoppingTranscoder = False,
        appStateRef = Some example_live, onCrashCallback = True,
        crashReports = [], hlsFiles = [], cleanups = 1, killTimeout = False\<rparr>
   \<and> cleanups (onClose (Some 255) (stopTranscoder example_running)) = 0"
  using stop_then_exit_cleans_up_once
          [of example_running "\<lparr>signals = [], stopCloseListener = False\<rparr>" "Some 255"]
  by (simp add: example_running_def)

section \<open>Properties of the heartbeat\<close>

lemma channelRun_snoc: "channelRun ws (h @ [e]) = channelStep (channelRun ws h) e"
  by (simp add: channelRun_def)

lemma admitted_run_flag:
  "\<not> terminated (channelRun (admitted newWebSocket) h) \<Longrightarrow>
     (isAlive (channelRun (admitted newWebSocket) h) = Some False) = (h \<noteq> [] \<and> last h = Tick)"
proof (induction h rule: rev_induct)
  case Nil
  then show ?case by (simp add: channelRun_def admitted_def newWebSocket_def)
next
  case (snoc e h)
  let ?w = "channelRun (admitted newWebSocket) h"
  from snoc.prems have nt: "\<not> terminated ?w"
    by (cases e) (auto simp: channelRun_snoc split: if_splits)
  show ?case
  proof (cases e)
    case Tick
    with snoc.prems nt show ?thesis
      by (auto simp: channelRun_snoc heartbeatClient_def split: if_splits)
  next
    case Pong
    with nt show ?thesis by (simp add: channelRun_snoc onPong_def)
  qed
qed

text \<open>
  Claim C9, as stated, fails. An admitted channel is probed at the first tick, answers, and
  is probed again at the second tick, where it is not presumed dead since it has responded
  since the previous tick. It then misses one interval and the third tick, the first at
  which it is presumed dead, terminates it. Likewise a channel that never answers is
  terminated at its second tick, one interval after its only probe.
\<close>

theorem heartbeat_one_missed_interval_counterexample:
  "\<not> terminated (channelRun (admitted newWebSocket) [Tick, Pong, Tick])
   \<and> \<not> spec_presumed_dead [Tick, Pong]
   \<and> spec_presumed_dead [Tick, Pong, Tick]
   \<and> terminated (channelRun (admitted newWebSocket) [Tick, Pong, Tick, Tick])
   \<and> \<not> terminated (channelRun (admitted newWebSocket) [Tick])
   \<and> \<not> spec_presumed_dead []
   \<and> spec_presumed_dead [Tick]
   \<and> terminated (channelRun (admitted newWebSocket) [Tick, Tick])"
  by (simp add: channelRun_def admitted_def newWebSocket_def heartbeatClient_def onPong_def
      spec_presumed_dead_def)

text \<open>
  Claim C9, amended. The heartbeat keeps one flag per channel. A tick terminates a channel
  whose flag is still cleared, that is, one that has not responded since the previous tick
  cleared the flag and probed it; any other channel has its flag cleared and is probed, and
  a response sets the flag again. So a channel is force-closed exactly at the second of two
  consecutive ticks with no response between them, after one full interval without a
  response; a channel that was admitted or has responded since the previous tick survives
  the tick.
\<close>

theorem heartbeat_closes_after_one_unanswered_probe:
  "(\<not> terminated ws \<longrightarrow>
      (terminated (channelStep ws Tick) \<longleftrightarrow> isAlive ws = Some False)
      \<and> (isAlive ws \<noteq> Some False \<longrightarrow>
            isAlive (channelStep ws Tick) = Some False
          \<and> pingsSent (channelStep ws Tick) = Suc (pingsSent ws)
          \<and> \<not> terminated (channelRun ws [Tick, Pong, Tick]))
      \<and> terminated (channelRun ws [Tick, Tick])
      \<and> \<not> terminated (channelRun ws [Pong, Tick]))
   \<and> \<not> terminated (channelRun (admitted newWebSocket) [Tick])
   \<and> (\<not> terminated (channelRun (admitted newWebSocket) history) \<longrightarrow>
        (terminated (channelRun (admitted newWebSocket) (history @ [Tick]))
           \<longleftrightarrow> history \<noteq> [] \<and> last history = Tick))"
proof (intro conjI impI)
  assume nt: "\<not> terminated (channelRun (admitted newWebSocket) history)"
  from admitted_run_flag [OF nt] nt
  show "terminated (channelRun (admitted newWebSocket) (history @ [Tick]))
           \<longleftrightarrow> history \<noteq> [] \<and> last history = Tick"
    by (simp add: channelRun_snoc heartbeatClient_def)
qed (auto simp: channelRun_def heartbeatClient_def onPong_def admitted_def newWebSocket_def)

theorem heartbeat_closes_after_one_unanswered_probe_witness:
  "\<not> terminated (admitted newWebSocket)
   \<and> \<not> terminated (channelRun (admitted newWebSocket) [Tick, Pong, Tick])
   \<and> terminated (channelRun (admitted newWebSocket) ([Tick, Pong, Tick] @ [Tick]))
   \<and> \<not> terminated (channelRun (admitted newWebSocket) ([Tick, Pong] @ [Tick]))"
  using heartbeat_closes_after_one_unanswered_probe [of "admitted newWebSocket" "[Tick, Pong, Tick]"]
        heartbeat_closes_after_one_unanswered_probe [of "admitted newWebSocket" "[Tick, Pong]"]
  by (simp add: channelRun_def admitted_def newWebSocket_def heartbeatClient_def onPong_def)

end
